theory Spec2Isabelle
  imports Complex_Main "HOL-Library.Multiset" "HOL-Library.Product_Lexorder"
begin

section \<open>Data as the front end receives it\<close>

text \<open>
  A GeoJSON position is the array \<open>[lng, lat]\<close>. JavaScript numbers are taken here as
  finite reals: the only arithmetic the embedded code performs on them is the subtraction
  inside the sort comparator, whose sign on finite doubles is the sign of the real
  difference.
\<close>

type_synonym position = "real list"

text \<open>A thrown JavaScript \<open>Error\<close> (with its message) or \<open>TypeError\<close>.\<close>

datatype error = Error string | TypeError string

text \<open>
  The hotspot file: a FeatureCollection whose \<open>features\<close> may be missing. An element of
  the array is \<open>null\<close> (\<open>None\<close>) or a feature, with an optional \<open>geometry\<close> that
  carries a \<open>type\<close> tag (a missing tag behaves as any tag other than \<open>"Polygon"\<close>) and
  \<open>coordinates\<close>. The code never looks into the coordinates: it hands them to the
  library as they are, so their type \<open>'c\<close> is left open (a list of linear rings in a
  well-formed polygon; anything else in a malformed file). An element or a geometry that
  is a number, a string or a boolean reads as an object without the property asked for,
  that is, as a feature without geometry.
\<close>

record 'c geometry =
  gtype :: string
  coordinates :: 'c

record 'c feature =
  geometry :: "'c geometry option"

record 'c featureCollection =
  features :: "'c feature option list option"

text \<open>
  One route of the OSRM answer: \<open>r.geometry.coordinates\<close>, \<open>r.distance\<close> (meters),
  \<open>r.duration\<close> (seconds).
\<close>

record route =
  r_coordinates :: "position list"
  r_distance :: real
  r_duration :: real

text \<open>The parsed OSRM answer \<open>js\<close>: \<open>js.code\<close>, \<open>js.routes\<close>, \<open>js.message\<close>.\<close>

record osrm_response =
  code :: string
  routes :: "route list option"
  message :: "string option"

text \<open>The object built for each route inside \<open>routes.map\<close>.\<close>

record 'l scored =
  route :: route
  line :: 'l
  risk :: nat
  distance :: real
  duration :: real

section \<open>The turf library as an interface\<close>

text \<open>
  \<open>import * as turf from "@turf/turf"\<close>: the three functions the code calls. Each of
  them may throw: the two constructors on what they do not accept, and the line-polygon
  predicate \<open>booleanIntersects\<close> on a geometry it cannot read (a polygon without rings,
  say). The library is a parameter of every function below, so each theorem holds for
  whatever the library computes.
\<close>

record ('c, 'l, 'p) turf =
  lineString :: "position list \<Rightarrow> error + 'l"
  polygon :: "'c \<Rightarrow> error + 'p"
  booleanIntersects :: "'l \<Rightarrow> 'p \<Rightarrow> error + bool"

section \<open>Time mode\<close>

text \<open>
  \<open>nowIsNight\<close> reads \<open>new Date().getHours()\<close>; the hour read is the argument \<open>h\<close>.
\<close>

definition nowIsNight :: "nat \<Rightarrow> bool" where
  "nowIsNight h = (h \<ge> 21 \<or> h \<le> 4)"

text \<open>The body of the \<open>useMemo\<close> callback, for the state \<open>timeMode\<close> and the hour read.\<close>

definition effectiveMode :: "string \<Rightarrow> nat \<Rightarrow> string" where
  "effectiveMode timeMode h =
     (if timeMode = ''day'' \<or> timeMode = ''night'' then timeMode
      else if nowIsNight h then ''night'' else ''day'')"

section \<open>Risk score\<close>

text \<open>
  The \<open>for (const f of hotspotFC.features)\<close> loop with its accumulator \<open>score\<close>.
  Reading \<open>f.geometry\<close> from a \<open>null\<close> element throws a TypeError (the optional chaining
  guards \<open>geometry\<close>, not \<open>f\<close>); the loop \<open>continue\<close>s when
  \<open>f.geometry?.type !== "Polygon"\<close>; otherwise it builds the polygon (which may throw),
  asks the predicate (which may throw) and adds one when the answer is true. The
  text of a TypeError is the engine's and is abbreviated.
\<close>

fun riskScore_loop ::
  "('c, 'l, 'p) turf \<Rightarrow> 'l \<Rightarrow> 'c feature option list \<Rightarrow> nat \<Rightarrow> error + nat" where
  "riskScore_loop T routeGeoJsonLine [] score = Inr score"
| "riskScore_loop T routeGeoJsonLine (None # fs) score =
     Inl (TypeError ''Cannot read properties of null'')"
| "riskScore_loop T routeGeoJsonLine (Some f # fs) score =
     (case geometry f of
        None \<Rightarrow> riskScore_loop T routeGeoJsonLine fs score
      | Some g \<Rightarrow>
          if gtype g \<noteq> ''Polygon'' then riskScore_loop T routeGeoJsonLine fs score
          else (case polygon T (coordinates g) of
                  Inl e \<Rightarrow> Inl e
                | Inr poly \<Rightarrow>
                    (case booleanIntersects T routeGeoJsonLine poly of
                       Inl e \<Rightarrow> Inl e
                     | Inr b \<Rightarrow>
                         riskScore_loop T routeGeoJsonLine fs
                           (if b then score + 1 else score))))"

text \<open>
  \<open>if (!hotspotFC?.features?.length) return 0\<close>: a null collection, a missing
  \<open>features\<close> and an empty array all return 0 before the loop.
\<close>

definition riskScore ::
  "('c, 'l, 'p) turf \<Rightarrow> 'l \<Rightarrow> 'c featureCollection option \<Rightarrow> error + nat" where
  "riskScore T routeGeoJsonLine hotspotFC =
     (case hotspotFC of
        None \<Rightarrow> Inr 0
      | Some fc \<Rightarrow>
          (case features fc of
             None \<Rightarrow> Inr 0
           | Some fs \<Rightarrow>
               if length fs = 0 then Inr 0
               else riskScore_loop T routeGeoJsonLine fs 0))"

section \<open>Fetching the candidate routes\<close>

text \<open>
  \<open>fetchRoutes\<close> after the network answer has been parsed into \<open>js\<close>:
  \<open>if (js.code !== "Ok" || !js.routes?.length) throw new Error(js.message || "Routing failed")\<close>.
  An empty message is falsy, so it is replaced as a missing one is.
\<close>

definition failureMessage :: "osrm_response \<Rightarrow> string" where
  "failureMessage js =
     (case message js of
        None \<Rightarrow> ''Routing failed''
      | Some m \<Rightarrow> if m = [] then ''Routing failed'' else m)"

definition fetchRoutes :: "osrm_response \<Rightarrow> error + route list" where
  "fetchRoutes js =
     (if code js \<noteq> ''Ok'' then Inl (Error (failureMessage js))
      else (case routes js of
              None \<Rightarrow> Inl (Error (failureMessage js))
            | Some rs \<Rightarrow>
                if length rs = 0 then Inl (Error (failureMessage js)) else Inr rs))"

section \<open>Scoring and ranking\<close>

text \<open>The callback of \<open>routes.map\<close>: build the line string, then score it.\<close>

definition scoreRoute ::
  "('c, 'l, 'p) turf \<Rightarrow> 'c featureCollection option \<Rightarrow> route \<Rightarrow> error + 'l scored" where
  "scoreRoute T hotspotsGeo r =
     (case lineString T (r_coordinates r) of
        Inl e \<Rightarrow> Inl e
      | Inr ls \<Rightarrow>
          (case riskScore T ls hotspotsGeo of
             Inl e \<Rightarrow> Inl e
           | Inr k \<Rightarrow>
               Inr \<lparr>route = r, line = ls, risk = k,
                    distance = r_distance r, duration = r_duration r\<rparr>))"

text \<open>\<open>Array.prototype.map\<close> with a callback that may throw: the first throw ends it.\<close>

fun Array_map :: "('a \<Rightarrow> error + 'b) \<Rightarrow> 'a list \<Rightarrow> error + 'b list" where
  "Array_map f [] = Inr []"
| "Array_map f (x # xs) =
     (case f x of
        Inl e \<Rightarrow> Inl e
      | Inr y \<Rightarrow> (case Array_map f xs of Inl e \<Rightarrow> Inl e | Inr ys \<Rightarrow> Inr (y # ys)))"

text \<open>
  The comparator given to \<open>scored.sort\<close>: the risk difference when the risks differ,
  otherwise \<open>b.distance - a.distance\<close>.
\<close>

definition compareScored :: "'l scored \<Rightarrow> 'l scored \<Rightarrow> real" where
  "compareScored a b =
     (if risk a \<noteq> risk b then real (risk a) - real (risk b)
      else distance b - distance a)"

text \<open>
  \<open>Array.prototype.sort\<close> with a comparator. ECMAScript (2019 and later, which the
  optional chaining in this file presupposes) requires the sort to be stable, and for a
  consistent comparator the stable sorted arrangement is unique; it is computed here by
  stable insertion: an element goes before the first later element it does not compare
  greater than.
\<close>

fun sort_insert :: "('a \<Rightarrow> 'a \<Rightarrow> real) \<Rightarrow> 'a \<Rightarrow> 'a list \<Rightarrow> 'a list" where
  "sort_insert cmp x [] = [x]"
| "sort_insert cmp x (y # ys) =
     (if cmp x y \<le> 0 then x # y # ys else y # sort_insert cmp x ys)"

fun Array_sort :: "('a \<Rightarrow> 'a \<Rightarrow> real) \<Rightarrow> 'a list \<Rightarrow> 'a list" where
  "Array_sort cmp [] = []"
| "Array_sort cmp (x # xs) = sort_insert cmp x (Array_sort cmp xs)"

text \<open>\<open>Math.max(...xs)\<close> on counts; \<open>None\<close> stands for \<open>-Infinity\<close>, its value on no arguments.\<close>

fun Math_max :: "nat list \<Rightarrow> nat option" where
  "Math_max [] = None"
| "Math_max (x # xs) = (case Math_max xs of None \<Rightarrow> Some x | Some m \<Rightarrow> Some (max x m))"

section \<open>The handler\<close>

text \<open>
  The status line set by the handler:
  \<^item> \<open>CouldNotGeocode\<close>: "Could not geocode one of the places."
  \<^item> \<open>AvoidsAll\<close>: "Selected a route that avoids all hotspot polygons."
  \<^item> \<open>Safest r m\<close>: "Selected safest route (risk=r). Other routes had up to m."
  \<^item> \<open>ErrorStatus e\<close>: "Error: " followed by the message of the caught error.
\<close>

datatype status =
    CouldNotGeocode
  | AvoidsAll
  | Safest nat "nat option"
  | ErrorStatus error

text \<open>
  What the \<open>try\<close> block has computed when it ends normally: \<open>best\<close>, the array
  \<open>scored\<close> after sorting (every element is drawn, index 0 highlighted) and the status.
\<close>

record 'l selection =
  best :: "'l scored"
  allScored :: "'l scored list"
  status :: status

text \<open>
  The \<open>try\<close> block from \<open>fetchRoutes\<close> on, with \<open>js\<close> the parsed routing answer and
  \<open>hotspotsGeo\<close> the loaded state. \<open>scored[0]\<close> of an empty array is \<open>undefined\<close>, and
  reading \<open>best.risk\<close> from it throws a TypeError.
\<close>

definition handleGetRoute_try ::
  "('c, 'l, 'p) turf \<Rightarrow> osrm_response \<Rightarrow> 'c featureCollection option \<Rightarrow>
   error + 'l selection" where
  "handleGetRoute_try T js hotspotsGeo =
     (case fetchRoutes js of
        Inl e \<Rightarrow> Inl e
      | Inr rs \<Rightarrow>
          (case Array_map (scoreRoute T hotspotsGeo) rs of
             Inl e \<Rightarrow> Inl e
           | Inr scored0 \<Rightarrow>
               (case Array_sort compareScored scored0 of
                  [] \<Rightarrow> Inl (TypeError ''Cannot read properties of undefined'')
                | b # rest \<Rightarrow>
                    Inr \<lparr>best = b, allScored = b # rest,
                         status = (if risk b = 0 then AvoidsAll
                                   else Safest (risk b) (Math_max (map risk (b # rest))))\<rparr>)))"

text \<open>
  The whole handler's status: \<open>A\<close> and \<open>B\<close> are the geocoding results (\<open>null\<close> is
  \<open>None\<close>); a throw inside the \<open>try\<close> block is caught and reported.
\<close>

definition handleGetRoute ::
  "('c, 'l, 'p) turf \<Rightarrow> (real \<times> real) option \<Rightarrow> (real \<times> real) option \<Rightarrow>
   osrm_response \<Rightarrow> 'c featureCollection option \<Rightarrow> status" where
  "handleGetRoute T A B js hotspotsGeo =
     (if A = None \<or> B = None then CouldNotGeocode
      else (case handleGetRoute_try T js hotspotsGeo of
              Inl e \<Rightarrow> ErrorStatus e
            | Inr sel \<Rightarrow> status sel))"

section \<open>The placeholder route of the second map component\<close>

text \<open>
  The state of \<open>MapWithSaferRouting\<close>; \<open>origin\<close> and \<open>destination\<close> are \<open>null\<close> or a
  two-element array, hotspots are points.
\<close>

record mapState =
  origin :: "(real \<times> real) option"
  destination :: "(real \<times> real) option"
  timeMode :: string
  detourStrength :: string
  dayHotspots :: "(real \<times> real) list"
  nightHotspots :: "(real \<times> real) list"

definition hotspots :: "mapState \<Rightarrow> (real \<times> real) list" where
  "hotspots st = (if timeMode st = ''day'' then dayHotspots st else nightHotspots st)"

definition calculateRoute :: "mapState \<Rightarrow> (real \<times> real) list" where
  "calculateRoute st =
     (case origin st of
        None \<Rightarrow> []
      | Some orig \<Rightarrow> (case destination st of None \<Rightarrow> [] | Some dest \<Rightarrow> [orig, dest]))"

section \<open>Vocabulary of the properties\<close>

text \<open>
  The order the ranking is to establish: lower risk first, and among equal risks the
  longer distance first.
\<close>

definition ranksBefore :: "'l scored \<Rightarrow> 'l scored \<Rightarrow> bool" where
  "ranksBefore a b = (risk a < risk b \<or> (risk a = risk b \<and> distance b \<le> distance a))"

text \<open>The same order as a sort key, compared lexicographically.\<close>

definition rankKey :: "'l scored \<Rightarrow> nat \<times> real" where
  "rankKey s = (risk s, - distance s)"

text \<open>The entries of a hotspot collection; none when it, or its \<open>features\<close>, is absent.\<close>

definition featuresOf :: "'c featureCollection option \<Rightarrow> 'c feature option list" where
  "featuresOf hotspotFC =
     (case hotspotFC of
        None \<Rightarrow> []
      | Some fc \<Rightarrow> (case features fc of None \<Rightarrow> [] | Some fs \<Rightarrow> fs))"

text \<open>An entry that is a feature whose geometry is tagged \<open>"Polygon"\<close>.\<close>

definition isPolygonFeature :: "'c feature option \<Rightarrow> bool" where
  "isPolygonFeature f =
     (case f of
        None \<Rightarrow> False
      | Some ft \<Rightarrow> (case geometry ft of None \<Rightarrow> False | Some g \<Rightarrow> gtype g = ''Polygon''))"

text \<open>
  An entry that is a feature without a geometry, or with a geometry tagged otherwise. (A
  \<open>null\<close> entry is neither this nor a polygon feature.)
\<close>

definition notPolygon :: "'c feature option \<Rightarrow> bool" where
  "notPolygon f =
     (case f of
        None \<Rightarrow> False
      | Some ft \<Rightarrow> (case geometry ft of None \<Rightarrow> True | Some g \<Rightarrow> gtype g \<noteq> ''Polygon''))"

text \<open>The polygon the library builds from an entry, when it is tagged so and accepted.\<close>

definition builtPolygon :: "('c, 'l, 'p) turf \<Rightarrow> 'c feature option \<Rightarrow> 'p option" where
  "builtPolygon T f =
     (case f of
        None \<Rightarrow> None
      | Some ft \<Rightarrow>
          (case geometry ft of
             None \<Rightarrow> None
           | Some g \<Rightarrow>
               if gtype g = ''Polygon''
               then (case polygon T (coordinates g) of Inl e \<Rightarrow> None | Inr p \<Rightarrow> Some p)
               else None))"

text \<open>The polygons of a collection, in order.\<close>

definition polygonsOf :: "('c, 'l, 'p) turf \<Rightarrow> 'c featureCollection option \<Rightarrow> 'p list" where
  "polygonsOf T hotspotFC = List.map_filter (builtPolygon T) (featuresOf hotspotFC)"

text \<open>An entry tagged \<open>"Polygon"\<close> that the library's constructor rejects.\<close>

definition rejected :: "('c, 'l, 'p) turf \<Rightarrow> 'c feature option \<Rightarrow> bool" where
  "rejected T f = (isPolygonFeature f \<and> builtPolygon T f = None)"

text \<open>The predicate returns true for the line and the polygon (it does not throw).\<close>

definition intersects :: "('c, 'l, 'p) turf \<Rightarrow> 'l \<Rightarrow> 'p \<Rightarrow> bool" where
  "intersects T ls p = (booleanIntersects T ls p = Inr True)"

text \<open>The predicate throws for the line and the polygon.\<close>

definition unreadable :: "('c, 'l, 'p) turf \<Rightarrow> 'l \<Rightarrow> 'p \<Rightarrow> bool" where
  "unreadable T ls p = isl (booleanIntersects T ls p)"

text \<open>The maximum the status line reports, if it reports one.\<close>

definition maxRiskObserved :: "status \<Rightarrow> nat option" where
  "maxRiskObserved st = (case st of Safest r m \<Rightarrow> m | _ \<Rightarrow> None)"

section \<open>An instance of the library and sample inputs\<close>

text \<open>
  The package \<open>@turf/turf\<close> is not part of the sources. For running the code on
  concrete inputs, its two constructors are taken as the data model describes what they
  build, with the library's error messages.
\<close>

text \<open>
  Modelled from the spec: \<open>turf.lineString\<close>, missing from the sources. A route line is
  an ordered sequence of at least two positions; fewer is an error raised to the caller.
\<close>

definition turf_lineString :: "position list \<Rightarrow> error + position list" where
  "turf_lineString cs =
     (if length cs < 2
      then Inl (Error ''coordinates must be an array of two or more positions'')
      else Inr cs)"

text \<open>
  Modelled from the spec: the ring check of \<open>turf.polygon\<close>, missing from the sources.
  Every linear ring has at least four positions and is closed (first equals last); the
  rings are checked in order, and the first that fails decides the error.
\<close>

fun checkRings :: "position list list \<Rightarrow> error option" where
  "checkRings [] = None"
| "checkRings (ring # rest) =
     (if length ring < 4
      then Some (Error ''Each LinearRing of a Polygon must have 4 or more Positions.'')
      else if last ring \<noteq> hd ring
      then Some (Error ''First and last Position are not equivalent.'')
      else checkRings rest)"

text \<open>
  Modelled from the spec: \<open>turf.polygon\<close>, missing from the sources. A polygon is built
  from rings that pass the check; a non-closed or degenerate ring is an error raised to
  the caller, not tolerated.
\<close>

definition turf_polygon :: "position list list \<Rightarrow> error + position list list" where
  "turf_polygon rings = (case checkRings rings of Some e \<Rightarrow> Inl e | None \<Rightarrow> Inr rings)"

text \<open>
  A stand-in for the intersection predicate, used only to run the code on the sample
  inputs below: the line has a position that is a vertex of the polygon. On those inputs
  it agrees with planar intersection (a shared vertex is an intersection, and the sample
  lines that share none lie far outside the sample squares). On a polygon without rings,
  which the constructor accepts, the library's predicate throws a TypeError, and so does
  the stand-in.
\<close>

definition sharesVertex :: "position list \<Rightarrow> position list list \<Rightarrow> bool" where
  "sharesVertex ls poly = list_ex (\<lambda>p. list_ex (\<lambda>ring. p \<in> set ring) poly) ls"

definition sampleIntersects :: "position list \<Rightarrow> position list list \<Rightarrow> error + bool" where
  "sampleIntersects ls poly =
     (if poly = [] then Inl (TypeError ''Cannot read properties of undefined'')
      else Inr (sharesVertex ls poly))"

definition turf_sample :: "(position list list, position list, position list list) turf" where
  "turf_sample =
     \<lparr>lineString = turf_lineString, polygon = turf_polygon,
      booleanIntersects = sampleIntersects\<rparr>"

text \<open>Sample entries of a hotspot file.\<close>

definition squareA :: "position list list feature option" where
  "squareA =
     Some \<lparr>geometry = Some \<lparr>gtype = ''Polygon'',
                             coordinates = [[[0, 0], [2, 0], [2, 2], [0, 2], [0, 0]]]\<rparr>\<rparr>"

definition squareB :: "position list list feature option" where
  "squareB =
     Some \<lparr>geometry =
             Some \<lparr>gtype = ''Polygon'',
                   coordinates = [[[10, 10], [12, 10], [12, 12], [10, 12], [10, 10]]]\<rparr>\<rparr>"

definition pointFeature :: "position list list feature option" where
  "pointFeature = Some \<lparr>geometry = Some \<lparr>gtype = ''Point'', coordinates = []\<rparr>\<rparr>"

definition noGeometry :: "position list list feature option" where
  "noGeometry = Some \<lparr>geometry = None\<rparr>"

text \<open>Tagged as a polygon, but the ring is not closed.\<close>

definition openRing :: "position list list feature option" where
  "openRing =
     Some \<lparr>geometry = Some \<lparr>gtype = ''Polygon'',
                             coordinates = [[[0, 0], [2, 0], [2, 2], [0, 2]]]\<rparr>\<rparr>"

text \<open>Tagged as a polygon, with no ring at all: \<open>{type: "Polygon", coordinates: []}\<close>.\<close>

definition emptyPolygon :: "position list list feature option" where
  "emptyPolygon = Some \<lparr>geometry = Some \<lparr>gtype = ''Polygon'', coordinates = []\<rparr>\<rparr>"

text \<open>A \<open>null\<close> in the array.\<close>

definition nullEntry :: "position list list feature option" where
  "nullEntry = None"

definition hotspotsAB :: "position list list featureCollection option" where
  "hotspotsAB = Some \<lparr>features = Some [squareA, pointFeature, squareB]\<rparr>"

definition route1 :: route where
  "route1 = \<lparr>r_coordinates = [[0, 0], [10, 10]], r_distance = 5000, r_duration = 600\<rparr>"

definition route2 :: route where
  "route2 = \<lparr>r_coordinates = [[20, 20], [30, 20]], r_distance = 4000, r_duration = 500\<rparr>"

definition route3 :: route where
  "route3 =
     \<lparr>r_coordinates = [[20, 20], [25, 30], [30, 20]], r_distance = 4500, r_duration = 550\<rparr>"

definition route4 :: route where
  "route4 = \<lparr>r_coordinates = [[2, 2], [30, 20]], r_distance = 4200, r_duration = 520\<rparr>"

definition answer123 :: osrm_response where
  "answer123 = \<lparr>code = ''Ok'', routes = Some [route1, route2, route3], message = None\<rparr>"

definition answer14 :: osrm_response where
  "answer14 = \<lparr>code = ''Ok'', routes = Some [route1, route4], message = None\<rparr>"

definition answerNone :: osrm_response where
  "answerNone = \<lparr>code = ''Ok'', routes = Some [], message = None\<rparr>"

text \<open>The objects the scoring builds for the three sample routes against \<open>hotspotsAB\<close>.\<close>

definition scored1 :: "position list scored" where
  "scored1 =
    \<lparr>route = route1, line = [[0, 0], [10, 10]], risk = 2,
     distance = 5000, duration = 600\<rparr>"

definition scored2 :: "position list scored" where
  "scored2 =
    \<lparr>route = route2, line = [[20, 20], [30, 20]], risk = 0,
     distance = 4000, duration = 500\<rparr>"

definition scored3 :: "position list scored" where
  "scored3 =
    \<lparr>route = route3, line = [[20, 20], [25, 30], [30, 20]], risk = 0,
     distance = 4500, duration = 550\<rparr>"

text \<open>What the handler computes on \<open>answer123\<close> with \<open>hotspotsAB\<close>.\<close>

definition selection123 :: "position list selection" where
  "selection123 = \<lparr>best = scored3, allScored = [scored3, scored2, scored1], status = AvoidsAll\<rparr>"

text \<open>How many of the polygons built from a list of entries the line intersects.\<close>

definition hits :: "('c, 'l, 'p) turf \<Rightarrow> 'l \<Rightarrow> 'c feature option list \<Rightarrow> nat" where
  "hits T ls fs = length (filter (intersects T ls) (List.map_filter (builtPolygon T) fs))"

text \<open>
  An entry at which the loop throws: a \<open>null\<close>, a polygon feature the constructor
  rejects, or one whose polygon the predicate cannot read.
\<close>

definition raises :: "('c, 'l, 'p) turf \<Rightarrow> 'l \<Rightarrow> 'c feature option \<Rightarrow> bool" where
  "raises T ls f =
     (f = None \<or> rejected T f \<or>
      (case builtPolygon T f of None \<Rightarrow> False | Some p \<Rightarrow> unreadable T ls p))"

text \<open>A state of the second map component with the origin still unset.\<close>

definition mapState0 :: mapState where
  "mapState0 =
     \<lparr>origin = None, destination = Some (34, -118), timeMode = ''day'',
      detourStrength = ''normal'', dayHotspots = [], nightHotspots = []\<rparr>"

text \<open>
  A routing answer in which two routes agree in risk and distance, in both orders, with
  what the handler computes on each against \<open>hotspotsAB\<close>.
\<close>

definition route2b :: route where
  "route2b = \<lparr>r_coordinates = [[20, 20], [30, 21]], r_distance = 4000, r_duration = 480\<rparr>"

definition answerTwins :: osrm_response where
  "answerTwins = \<lparr>code = ''Ok'', routes = Some [route1, route2, route2b], message = None\<rparr>"

definition answerTwinsRev :: osrm_response where
  "answerTwinsRev = \<lparr>code = ''Ok'', routes = Some [route1, route2b, route2], message = None\<rparr>"

definition scored2b :: "position list scored" where
  "scored2b =
    \<lparr>route = route2b, line = [[20, 20], [30, 21]], risk = 0,
     distance = 4000, duration = 480\<rparr>"

definition selectionTwins :: "position list selection" where
  "selectionTwins =
    \<lparr>best = scored2, allScored = [scored2, scored2b, scored1], status = AvoidsAll\<rparr>"

definition selectionTwinsRev :: "position list selection" where
  "selectionTwinsRev =
    \<lparr>best = scored2b, allScored = [scored2b, scored2, scored1], status = AvoidsAll\<rparr>"

text \<open>The first sample route scored without hotspot data, and the handler's result then.\<close>

definition scored1_clear :: "position list scored" where
  "scored1_clear = scored1\<lparr>risk := 0\<rparr>"

definition selectionNoHotspots :: "position list selection" where
  "selectionNoHotspots =
    \<lparr>best = scored1_clear, allScored = [scored1_clear, scored3, scored2], status = AvoidsAll\<rparr>"

text \<open>A run in which every route crosses a hotspot: \<open>answer14\<close> with \<open>hotspotsAB\<close>.\<close>

definition scored4 :: "position list scored" where
  "scored4 =
    \<lparr>route = route4, line = [[2, 2], [30, 20]], risk = 1,
     distance = 4200, duration = 520\<rparr>"

definition selection14 :: "position list selection" where
  "selection14 =
    \<lparr>best = scored4, allScored = [scored4, scored1], status = Safest 1 (Some 2)\<rparr>"

section \<open>Auxiliary facts\<close>

lemmas sample_defs = turf_sample_def turf_lineString_def turf_polygon_def sharesVertex_def
  sampleIntersects_def emptyPolygon_def nullEntry_def
  squareA_def squareB_def pointFeature_def openRing_def noGeometry_def hotspotsAB_def
  route1_def route2_def route3_def route4_def answer123_def answer14_def answerNone_def

lemmas expected_defs = scored1_def scored2_def scored3_def selection123_def numeral_2_eq_2

lemmas twin_defs = route2b_def answerTwins_def answerTwinsRev_def scored2b_def
  selectionTwins_def selectionTwinsRev_def

lemmas code_defs = handleGetRoute_try_def fetchRoutes_def scoreRoute_def riskScore_def compareScored_def

subsection \<open>Sorting\<close>

lemma compareScored_le: "compareScored a b \<le> 0 \<longleftrightarrow> rankKey a \<le> rankKey b"
  by (auto simp: compareScored_def rankKey_def less_eq_prod_def)

lemma sort_insert_insort_key: "sort_insert compareScored x ys = insort_key rankKey x ys"
  by (induction ys) (simp_all add: compareScored_le)

lemma Array_sort_sort_key: "Array_sort compareScored xs = sort_key rankKey xs"
  by (induction xs) (simp_all add: sort_insert_insort_key)

lemma ranksBefore_key: "ranksBefore a b \<longleftrightarrow> rankKey a \<le> rankKey b"
  by (auto simp: ranksBefore_def rankKey_def less_eq_prod_def)

lemma sorted_Array_sort: "sorted_wrt ranksBefore (Array_sort compareScored xs)"
proof -
  have "sorted (map rankKey (sort_key rankKey xs))" by simp
  then show ?thesis
    unfolding Array_sort_sort_key sorted_map
    by (simp add: ranksBefore_key[abs_def])
qed

lemma mset_Array_sort: "mset (Array_sort compareScored xs) = mset xs"
  by (simp add: Array_sort_sort_key)

lemma length_Array_sort: "length (Array_sort compareScored xs) = length xs"
  by (simp add: Array_sort_sort_key)

lemma set_Array_sort: "set (Array_sort compareScored xs) = set xs"
  by (simp add: Array_sort_sort_key)

subsection \<open>map\<close>

lemma Array_map_Inr:
  "Array_map f xs = Inr ys \<Longrightarrow> list_all2 (\<lambda>x y. f x = Inr y) xs ys"
  by (induction xs arbitrary: ys) (auto split: sum.splits)

lemma Array_map_total:
  "\<forall>x\<in>set xs. f x = Inr (g x) \<Longrightarrow> Array_map f xs = Inr (map g xs)"
  by (induction xs) auto

lemma scoreRoute_Inr:
  "scoreRoute T hs r = Inr s \<Longrightarrow>
     route s = r \<and> distance s = r_distance r \<and> duration s = r_duration r \<and>
     lineString T (r_coordinates r) = Inr (line s) \<and> riskScore T (line s) hs = Inr (risk s)"
  by (auto simp: scoreRoute_def split: sum.splits)

lemma scored_routes:
  assumes "Array_map (scoreRoute T hs) rs = Inr ys"
  shows "map route ys = rs"
proof -
  have "list_all2 (\<lambda>r s. scoreRoute T hs r = Inr s) rs ys"
    using assms by (rule Array_map_Inr)
  then have "list_all2 (\<lambda>r s. route s = r) rs ys"
    by (rule list_all2_mono) (simp add: scoreRoute_Inr)
  then show ?thesis
    by (induction rule: list_all2_induct) auto
qed

lemma handleGetRoute_try_Inr:
  assumes "handleGetRoute_try T js hs = Inr sel"
  obtains rs scored0 rest where
    "fetchRoutes js = Inr rs"
    "Array_map (scoreRoute T hs) rs = Inr scored0"
    "Array_sort compareScored scored0 = best sel # rest"
    "allScored sel = best sel # rest"
    "status sel = (if risk (best sel) = 0 then AvoidsAll
                   else Safest (risk (best sel)) (Math_max (map risk (allScored sel))))"
  using assms unfolding handleGetRoute_try_def
  by (auto split: sum.splits list.splits)

lemma fetchRoutes_Inr: "fetchRoutes js = Inr rs \<Longrightarrow> code js = ''Ok'' \<and> routes js = Some rs \<and> rs \<noteq> []"
  by (auto simp: fetchRoutes_def split: if_splits option.splits)

subsection \<open>The sample run\<close>

lemma sample123: "handleGetRoute_try turf_sample answer123 hotspotsAB = Inr selection123"
  by (simp add: sample_defs code_defs expected_defs)

subsection \<open>The scoring loop\<close>

lemma hits_Nil: "hits T ls [] = 0"
  by (simp add: hits_def)

lemma hits_Cons:
  "hits T ls (f # fs) =
     (case builtPolygon T f of
        None \<Rightarrow> hits T ls fs
      | Some p \<Rightarrow> (if intersects T ls p then Suc (hits T ls fs) else hits T ls fs))"
  by (simp add: hits_def split: option.splits)

lemmas entry_defs = raises_def rejected_def isPolygonFeature_def notPolygon_def
  builtPolygon_def intersects_def unreadable_def

lemma riskScore_loop_ok:
  "\<forall>f\<in>set fs. \<not> raises T ls f \<Longrightarrow> riskScore_loop T ls fs n = Inr (n + hits T ls fs)"
proof (induction fs arbitrary: n)
  case Nil
  show ?case by (simp add: hits_Nil)
next
  case (Cons f fs)
  then have nr: "\<not> raises T ls f" and rest: "\<forall>f\<in>set fs. \<not> raises T ls f" by simp_all
  from nr obtain ft where f: "f = Some ft" by (auto simp: raises_def)
  show ?case
    using nr Cons.IH[OF rest] unfolding f
    by (auto simp: hits_Cons entry_defs split: option.splits sum.splits)
qed

lemma riskScore_loop_step:
  "\<not> raises T ls f \<Longrightarrow> \<exists>m. riskScore_loop T ls (f # fs) n = riskScore_loop T ls fs m"
  by (cases f) (auto simp: entry_defs split: option.splits sum.splits)

lemma riskScore_loop_stops:
  "raises T ls f \<Longrightarrow> \<exists>e. riskScore_loop T ls (f # fs) n = Inl e"
  by (cases f) (auto simp: entry_defs split: option.splits sum.splits)

lemma riskScore_loop_raises:
  "\<exists>f\<in>set fs. raises T ls f \<Longrightarrow> \<exists>e. riskScore_loop T ls fs n = Inl e"
proof (induction fs arbitrary: n)
  case Nil
  then show ?case by simp
next
  case (Cons f fs)
  show ?case
  proof (cases "raises T ls f")
    case True
    then show ?thesis by (rule riskScore_loop_stops)
  next
    case False
    from riskScore_loop_step[OF False, of fs n]
    obtain m where m: "riskScore_loop T ls (f # fs) n = riskScore_loop T ls fs m" ..
    from False Cons.prems have "\<exists>f\<in>set fs. raises T ls f" by simp
    from Cons.IH[OF this, of m] m show ?thesis by simp
  qed
qed

lemma riskScore_loop_skip:
  "notPolygon f \<Longrightarrow> riskScore_loop T ls (f # fs) n = riskScore_loop T ls fs n"
  by (cases f) (auto simp: notPolygon_def split: option.splits)

lemma riskScore_loop_cong:
  "(\<And>m. riskScore_loop T ls xs m = riskScore_loop T ls ys m) \<Longrightarrow>
   riskScore_loop T ls (f # xs) n = riskScore_loop T ls (f # ys) n"
  by (cases f) (auto split: option.splits sum.splits)

lemma riskScore_loop_filter:
  "riskScore_loop T ls (filter (\<lambda>f. \<not> notPolygon f) fs) n = riskScore_loop T ls fs n"
proof (induction fs arbitrary: n)
  case Nil
  show ?case by simp
next
  case (Cons f fs)
  show ?case
  proof (cases "notPolygon f")
    case True
    then show ?thesis by (simp add: riskScore_loop_skip Cons.IH)
  next
    case False
    then have "riskScore_loop T ls (filter (\<lambda>f. \<not> notPolygon f) (f # fs)) n
               = riskScore_loop T ls (f # filter (\<lambda>f. \<not> notPolygon f) fs) n"
      by simp
    also have "\<dots> = riskScore_loop T ls (f # fs) n"
      by (rule riskScore_loop_cong) (rule Cons.IH)
    finally show ?thesis .
  qed
qed

lemma riskScore_eq_loop: "riskScore T ls hs = riskScore_loop T ls (featuresOf hs) 0"
  by (cases "featuresOf hs") (auto simp: riskScore_def featuresOf_def split: option.splits)

lemma polygonsOf_hits:
  "length (filter (intersects T ls) (polygonsOf T hs)) = hits T ls (featuresOf hs)"
  by (simp add: hits_def polygonsOf_def)

lemma polygonsOf_filter:
  "List.map_filter (builtPolygon T) (filter (\<lambda>f. \<not> notPolygon f) fs)
   = List.map_filter (builtPolygon T) fs"
  by (induction fs)
     (auto simp: notPolygon_def builtPolygon_def split: option.splits)

lemma builtPolygon_in_polygonsOf:
  "f \<in> set (featuresOf hs) \<Longrightarrow> builtPolygon T f = Some p \<Longrightarrow> p \<in> set (polygonsOf T hs)"
  by (force simp: polygonsOf_def map_filter_def)

text \<open>The three conditions under which no entry throws.\<close>

lemma no_entry_raises:
  assumes "None \<notin> set (featuresOf hs)"
    and "\<forall>f\<in>set (featuresOf hs). \<not> rejected T f"
    and "\<forall>p\<in>set (polygonsOf T hs). \<not> unreadable T ls p"
  shows "\<forall>f\<in>set (featuresOf hs). \<not> raises T ls f"
proof
  fix f assume f: "f \<in> set (featuresOf hs)"
  with assms(1) have "f \<noteq> None" by (cases f) auto
  moreover from f assms(2) have "\<not> rejected T f" by simp
  moreover have "\<not> unreadable T ls p" if "builtPolygon T f = Some p" for p
    using builtPolygon_in_polygonsOf[OF f that] assms(3) by simp
  ultimately show "\<not> raises T ls f"
    by (auto simp: raises_def split: option.splits)
qed

lemma polygonsOf_AB:
  "polygonsOf turf_sample hotspotsAB
   = [[[[0, 0], [2, 0], [2, 2], [0, 2], [0, 0]]],
      [[[10, 10], [12, 10], [12, 12], [10, 12], [10, 10]]]]"
  by (simp add: polygonsOf_def featuresOf_def builtPolygon_def sample_defs)

subsection \<open>Stability, the maximum, and runs without hotspot data\<close>

lemma stable_Array_sort:
  "filter (\<lambda>s. risk s = r \<and> distance s = d) (Array_sort compareScored xs)
   = filter (\<lambda>s. risk s = r \<and> distance s = d) xs"
proof -
  have "(\<lambda>s::'a scored. risk s = r \<and> distance s = d) = (\<lambda>s. rankKey s = (r, - d))"
    by (auto simp: rankKey_def)
  then show ?thesis by (simp add: Array_sort_sort_key sort_key_stable)
qed

text \<open>
  A list that is sorted by a key and keeps, for every key value, the elements with that
  value in their given order is determined. So every stable sort agrees with
  \<open>Array_sort\<close> on the handler's comparator, whatever algorithm the engine runs.
\<close>

lemma stable_sorted_key_unique:
  fixes f :: "'a \<Rightarrow> 'k::linorder"
  assumes "sorted (map f ys)" and "sorted (map f zs)"
    and "\<forall>k. filter (\<lambda>y. f y = k) ys = filter (\<lambda>y. f y = k) zs"
  shows "ys = zs"
  using assms
proof (induction ys arbitrary: zs)
  case Nil
  show ?case
  proof (cases zs)
    case Nil
    then show ?thesis by simp
  next
    case (Cons z zs')
    from Nil.prems(3) have "filter (\<lambda>y. f y = f z) zs = []" by simp
    with Cons show ?thesis by simp
  qed
next
  case (Cons y ys)
  from Cons.prems(3) have "filter (\<lambda>x. f x = f y) (y # ys) = filter (\<lambda>x. f x = f y) zs"
    by (rule spec)
  then have fy: "filter (\<lambda>x. f x = f y) zs = y # filter (\<lambda>x. f x = f y) ys"
    by simp
  have "y \<in> set (filter (\<lambda>x. f x = f y) zs)" unfolding fy by simp
  then have yin: "y \<in> set zs" by simp
  then obtain z zs' where zs: "zs = z # zs'" by (cases zs) auto
  from Cons.prems(2) zs have zmin: "\<forall>w\<in>set zs. f z \<le> f w" by auto
  from Cons.prems(1) have ymin: "\<forall>w\<in>set (y # ys). f y \<le> f w" by auto
  have "z \<in> set (filter (\<lambda>x. f x = f z) zs)" using zs by simp
  moreover from Cons.prems(3)
  have "filter (\<lambda>x. f x = f z) (y # ys) = filter (\<lambda>x. f x = f z) zs" by (rule spec)
  ultimately have "z \<in> set (filter (\<lambda>x. f x = f z) (y # ys))" by simp
  then have "z \<in> set (y # ys)" unfolding set_filter by blast
  with ymin have "f y \<le> f z" by blast
  moreover from zmin yin have "f z \<le> f y" by blast
  ultimately have eq: "f z = f y" by simp
  with fy zs have zy: "z = y" and tl0: "filter (\<lambda>x. f x = f y) zs' = filter (\<lambda>x. f x = f y) ys"
    by simp_all
  have "\<forall>k. filter (\<lambda>x. f x = k) ys = filter (\<lambda>x. f x = k) zs'"
  proof
    fix k
    show "filter (\<lambda>x. f x = k) ys = filter (\<lambda>x. f x = k) zs'"
    proof (cases "k = f y")
      case True
      with tl0 show ?thesis by simp
    next
      case False
      from Cons.prems(3) have "filter (\<lambda>x. f x = k) (y # ys) = filter (\<lambda>x. f x = k) (z # zs')"
        unfolding zs by (rule spec)
      with False zy show ?thesis by simp
    qed
  qed
  moreover from Cons.prems(1) have "sorted (map f ys)" by simp
  moreover from Cons.prems(2) zs have "sorted (map f zs')" by simp
  ultimately have "ys = zs'" by (rule Cons.IH[rotated 2])
  with zy zs show ?case by simp
qed

lemma filter_rankKey:
  "filter (\<lambda>s. rankKey s = k) xs = filter (\<lambda>s. risk s = fst k \<and> distance s = - snd k) xs"
  by (rule filter_cong) (auto simp: rankKey_def)

lemma Array_sort_unique:
  assumes "sorted_wrt ranksBefore ys"
    and "\<forall>r d. filter (\<lambda>s. risk s = r \<and> distance s = d) ys
               = filter (\<lambda>s. risk s = r \<and> distance s = d) xs"
  shows "ys = Array_sort compareScored xs"
proof (rule stable_sorted_key_unique[where f = rankKey])
  show "sorted (map rankKey ys)"
    using assms(1) by (simp add: sorted_map ranksBefore_key[abs_def])
  show "sorted (map rankKey (Array_sort compareScored xs))"
    by (simp add: Array_sort_sort_key)
  show "\<forall>k. filter (\<lambda>y. rankKey y = k) ys = filter (\<lambda>y. rankKey y = k) (Array_sort compareScored xs)"
    using assms(2) by (simp add: filter_rankKey stable_Array_sort)
qed

lemma Math_max_Max: "xs \<noteq> [] \<Longrightarrow> Math_max xs = Some (Max (set xs))"
proof (induction xs)
  case Nil
  then show ?case by simp
next
  case (Cons x xs)
  show ?case
  proof (cases xs)
    case Nil
    then show ?thesis by simp
  next
    case (Cons y ys)
    then have "xs \<noteq> []" by simp
    with Cons.IH have "Math_max xs = Some (Max (set xs))" by simp
    with \<open>xs \<noteq> []\<close> show ?thesis by (simp add: Max_insert)
  qed
qed

lemma riskScore_no_features: "featuresOf hs = [] \<Longrightarrow> riskScore T ls hs = Inr 0"
  by (simp add: riskScore_eq_loop)

lemma Array_map_returns:
  "\<forall>x\<in>set xs. \<exists>y. f x = Inr y \<Longrightarrow> \<exists>ys. Array_map f xs = Inr ys"
  by (induction xs) auto

lemma scoreRoute_returns:
  assumes "riskScore T l hs = Inr k" and "lineString T (r_coordinates r) = Inr l"
  shows "\<exists>s. scoreRoute T hs r = Inr s"
  using assms by (simp add: scoreRoute_def)

lemma Array_map_scored:
  assumes "Array_map (scoreRoute T hs) rs = Inr ys"
  shows "\<forall>s\<in>set ys. scoreRoute T hs (route s) = Inr s"
proof -
  have "list_all2 (\<lambda>r s. scoreRoute T hs r = Inr s) rs ys"
    using assms by (rule Array_map_Inr)
  then show ?thesis
    by (induction rule: list_all2_induct) (auto dest: scoreRoute_Inr)
qed

section \<open>Ranking and the winner\<close>



section \<open>The risk score\<close>

text \<open>
  C2. Whenever the scorer returns a score, it is the number of the collection's polygons
  for which the intersection predicate returns true, each counted once. And it does
  return that number when the collection is well formed: no entry is \<open>null\<close>, the
  library's constructor accepts every entry tagged as a polygon, and the predicate
  returns (rather than throws) on each polygon built.
\<close>

theorem riskScore_counts_intersecting_polygons:
  "((None \<notin> set (featuresOf hs) \<and>
     (\<forall>f\<in>set (featuresOf hs). \<not> rejected T f) \<and>
     (\<forall>p\<in>set (polygonsOf T hs). \<not> unreadable T ls p)) \<longrightarrow>
      riskScore T ls hs = Inr (length (filter (intersects T ls) (polygonsOf T hs)))) \<and>
   (riskScore T ls hs = Inr k \<longrightarrow>
      k = length (filter (intersects T ls) (polygonsOf T hs)))"
proof (intro conjI impI)
  assume "None \<notin> set (featuresOf hs) \<and>
     (\<forall>f\<in>set (featuresOf hs). \<not> rejected T f) \<and>
     (\<forall>p\<in>set (polygonsOf T hs). \<not> unreadable T ls p)"
  then have "\<forall>f\<in>set (featuresOf hs). \<not> raises T ls f"
    by (intro no_entry_raises) simp_all
  then show "riskScore T ls hs = Inr (length (filter (intersects T ls) (polygonsOf T hs)))"
    by (simp add: riskScore_eq_loop riskScore_loop_ok polygonsOf_hits)
next
  assume k: "riskScore T ls hs = Inr k"
  have "\<forall>f\<in>set (featuresOf hs). \<not> raises T ls f"
  proof (rule ccontr)
    assume "\<not> (\<forall>f\<in>set (featuresOf hs). \<not> raises T ls f)"
    then have "\<exists>f\<in>set (featuresOf hs). raises T ls f" by simp
    from riskScore_loop_raises[OF this, of 0] k show False
      by (auto simp: riskScore_eq_loop)
  qed
  with k show "k = length (filter (intersects T ls) (polygonsOf T hs))"
    by (simp add: riskScore_eq_loop riskScore_loop_ok polygonsOf_hits)
qed

theorem riskScore_counts_intersecting_polygons_witness:
  "featuresOf hotspotsAB = [squareA, pointFeature, squareB] \<and>
   None \<notin> set (featuresOf hotspotsAB) \<and>
   \<not> rejected turf_sample squareA \<and> \<not> rejected turf_sample pointFeature \<and>
   \<not> rejected turf_sample squareB \<and>
   polygonsOf turf_sample hotspotsAB
     = [[[[0, 0], [2, 0], [2, 2], [0, 2], [0, 0]]],
        [[[10, 10], [12, 10], [12, 12], [10, 12], [10, 10]]]] \<and>
   \<not> unreadable turf_sample [[0, 0], [10, 10]] [[[0, 0], [2, 0], [2, 2], [0, 2], [0, 0]]] \<and>
   \<not> unreadable turf_sample [[0, 0], [10, 10]]
       [[[10, 10], [12, 10], [12, 12], [10, 12], [10, 10]]] \<and>
   riskScore turf_sample [[0, 0], [10, 10]] hotspotsAB = Inr 2 \<and>
   length (filter (intersects turf_sample [[0, 0], [10, 10]])
             (polygonsOf turf_sample hotspotsAB)) = 2 \<and>
   riskScore turf_sample [[2, 2], [30, 20]] hotspotsAB = Inr 1 \<and>
   riskScore turf_sample [[20, 20], [30, 20]] hotspotsAB = Inr 0"
proof -
  have fs: "featuresOf hotspotsAB = [squareA, pointFeature, squareB]"
    by (simp add: featuresOf_def hotspotsAB_def)
  have nn: "None \<notin> set (featuresOf hotspotsAB)"
    unfolding fs by (simp add: sample_defs)
  have nr: "\<not> rejected turf_sample squareA" "\<not> rejected turf_sample pointFeature"
    "\<not> rejected turf_sample squareB"
    by (simp_all add: rejected_def isPolygonFeature_def builtPolygon_def sample_defs)
  have h: "\<forall>f\<in>set (featuresOf hotspotsAB). \<not> rejected turf_sample f"
    unfolding fs using nr by simp
  have rd: "\<not> unreadable turf_sample ls [[[0, 0], [2, 0], [2, 2], [0, 2], [0, 0]]]"
    "\<not> unreadable turf_sample ls [[[10, 10], [12, 10], [12, 12], [10, 12], [10, 10]]]" for ls
    by (simp_all add: unreadable_def turf_sample_def sampleIntersects_def)
  have u: "\<forall>p\<in>set (polygonsOf turf_sample hotspotsAB). \<not> unreadable turf_sample ls p" for ls
    unfolding polygonsOf_AB using rd by simp
  have c2: "length (filter (intersects turf_sample [[0, 0], [10, 10]])
             (polygonsOf turf_sample hotspotsAB)) = 2"
    unfolding polygonsOf_AB
    by (simp add: intersects_def turf_sample_def sampleIntersects_def sharesVertex_def)
  have c1: "length (filter (intersects turf_sample [[2, 2], [30, 20]])
             (polygonsOf turf_sample hotspotsAB)) = 1"
    unfolding polygonsOf_AB
    by (simp add: intersects_def turf_sample_def sampleIntersects_def sharesVertex_def)
  have c0: "length (filter (intersects turf_sample [[20, 20], [30, 20]])
             (polygonsOf turf_sample hotspotsAB)) = 0"
    unfolding polygonsOf_AB
    by (simp add: intersects_def turf_sample_def sampleIntersects_def sharesVertex_def)
  from nn h u c2 c1 c0
    riskScore_counts_intersecting_polygons[of hotspotsAB turf_sample "[[0, 0], [10, 10]]" 2]
    riskScore_counts_intersecting_polygons[of hotspotsAB turf_sample "[[2, 2], [30, 20]]" 1]
    riskScore_counts_intersecting_polygons[of hotspotsAB turf_sample "[[20, 20], [30, 20]]" 0]
  have "riskScore turf_sample [[0, 0], [10, 10]] hotspotsAB = Inr 2 \<and>
        riskScore turf_sample [[2, 2], [30, 20]] hotspotsAB = Inr 1 \<and>
        riskScore turf_sample [[20, 20], [30, 20]] hotspotsAB = Inr 0"
    by simp
  with fs nn nr rd c2 polygonsOf_AB show ?thesis by simp
qed

text \<open>
  C5, as stated, fails: an entry tagged as a polygon whose ring is not closed is handed to
  the library's constructor, whose error ends the scoring and, through the handler's
  \<open>catch\<close>, the whole request.
\<close>

theorem riskScore_malformed_ring_counterexample:
  "riskScore turf_sample [[0, 0], [10, 10]] (Some \<lparr>features = Some [squareA, openRing, squareB]\<rparr>)
     = Inl (Error ''First and last Position are not equivalent.'') \<and>
   riskScore turf_sample [[0, 0], [10, 10]] (Some \<lparr>features = Some [squareA, squareB]\<rparr>) = Inr 2 \<and>
   handleGetRoute turf_sample (Some (0, 0)) (Some (30, 20)) answer123
       (Some \<lparr>features = Some [squareA, openRing, squareB]\<rparr>)
     = ErrorStatus (Error ''First and last Position are not equivalent.'')"
  by (simp add: handleGetRoute_def code_defs sample_defs)

text \<open>
  C5, amended. Entries that are features without a geometry, or with a geometry not
  tagged \<open>"Polygon"\<close>, are skipped and contribute nothing: the outcome of scoring, score
  or error, is that of the collection without them. Nothing else is skipped: a \<open>null\<close>
  entry, an entry tagged as a polygon that the constructor rejects, or a built polygon on
  which the predicate throws makes the scorer raise an error. When there is none of
  these, the score is the intersection count over the entries tagged as polygons.
\<close>

theorem riskScore_skips_entries_not_tagged_polygon:
  "riskScore T ls (Some \<lparr>features = Some fs\<rparr>)
     = riskScore T ls (Some \<lparr>features = Some (filter (\<lambda>f. \<not> notPolygon f) fs)\<rparr>) \<and>
   ((None \<in> set fs \<or> (\<exists>f\<in>set fs. rejected T f) \<or>
     (\<exists>p\<in>set (polygonsOf T (Some \<lparr>features = Some fs\<rparr>)). unreadable T ls p)) \<longrightarrow>
      (\<exists>e. riskScore T ls (Some \<lparr>features = Some fs\<rparr>) = Inl e)) \<and>
   ((None \<notin> set fs \<and> (\<forall>f\<in>set fs. \<not> rejected T f) \<and>
     (\<forall>p\<in>set (polygonsOf T (Some \<lparr>features = Some fs\<rparr>)). \<not> unreadable T ls p)) \<longrightarrow>
      riskScore T ls (Some \<lparr>features = Some fs\<rparr>)
        = Inr (length (filter (intersects T ls)
                 (polygonsOf T (Some \<lparr>features = Some (filter (\<lambda>f. \<not> notPolygon f) fs)\<rparr>)))))"
proof (intro conjI impI)
  show "riskScore T ls (Some \<lparr>features = Some fs\<rparr>)
     = riskScore T ls (Some \<lparr>features = Some (filter (\<lambda>f. \<not> notPolygon f) fs)\<rparr>)"
    by (simp add: riskScore_eq_loop featuresOf_def riskScore_loop_filter)
next
  assume a: "None \<in> set fs \<or> (\<exists>f\<in>set fs. rejected T f) \<or>
     (\<exists>p\<in>set (polygonsOf T (Some \<lparr>features = Some fs\<rparr>)). unreadable T ls p)"
  have "\<exists>f\<in>set fs. raises T ls f"
  proof -
    from a consider "None \<in> set fs" | "\<exists>f\<in>set fs. rejected T f"
      | "\<exists>p\<in>set (polygonsOf T (Some \<lparr>features = Some fs\<rparr>)). unreadable T ls p" by blast
    then show ?thesis
    proof cases
      case 1
      then show ?thesis by (auto simp: raises_def)
    next
      case 2
      then show ?thesis by (auto simp: raises_def)
    next
      case 3
      then obtain p where "p \<in> set (List.map_filter (builtPolygon T) fs)" "unreadable T ls p"
        by (auto simp: polygonsOf_def featuresOf_def)
      then obtain f where "f \<in> set fs" "builtPolygon T f = Some p"
        by (auto simp: map_filter_def)
      with \<open>unreadable T ls p\<close> have "raises T ls f" by (simp add: raises_def)
      with \<open>f \<in> set fs\<close> show ?thesis by blast
    qed
  qed
  from riskScore_loop_raises[OF this, of 0]
  show "\<exists>e. riskScore T ls (Some \<lparr>features = Some fs\<rparr>) = Inl e"
    by (simp add: riskScore_eq_loop featuresOf_def)
next
  assume "None \<notin> set fs \<and> (\<forall>f\<in>set fs. \<not> rejected T f) \<and>
     (\<forall>p\<in>set (polygonsOf T (Some \<lparr>features = Some fs\<rparr>)). \<not> unreadable T ls p)"
  then have "\<forall>f\<in>set (featuresOf (Some \<lparr>features = Some fs\<rparr>)). \<not> raises T ls f"
    by (intro no_entry_raises) (simp_all add: featuresOf_def)
  then have "riskScore T ls (Some \<lparr>features = Some fs\<rparr>) = Inr (hits T ls fs)"
    by (simp add: riskScore_eq_loop riskScore_loop_ok featuresOf_def)
  also have "hits T ls fs = length (filter (intersects T ls)
                 (polygonsOf T (Some \<lparr>features = Some (filter (\<lambda>f. \<not> notPolygon f) fs)\<rparr>)))"
    by (simp add: hits_def polygonsOf_def featuresOf_def polygonsOf_filter)
  finally show "riskScore T ls (Some \<lparr>features = Some fs\<rparr>)
        = Inr (length (filter (intersects T ls)
                 (polygonsOf T (Some \<lparr>features = Some (filter (\<lambda>f. \<not> notPolygon f) fs)\<rparr>))))" .
qed

theorem riskScore_skips_entries_not_tagged_polygon_witness:
  "None \<notin> set [squareA, pointFeature, noGeometry, squareB] \<and>
   \<not> rejected turf_sample squareA \<and> \<not> rejected turf_sample pointFeature \<and>
   \<not> rejected turf_sample noGeometry \<and> \<not> rejected turf_sample squareB \<and>
   polygonsOf turf_sample (Some \<lparr>features = Some [squareA, pointFeature, noGeometry, squareB]\<rparr>)
     = [[[[0, 0], [2, 0], [2, 2], [0, 2], [0, 0]]],
        [[[10, 10], [12, 10], [12, 12], [10, 12], [10, 10]]]] \<and>
   \<not> unreadable turf_sample [[0, 0], [10, 10]] [[[0, 0], [2, 0], [2, 2], [0, 2], [0, 0]]] \<and>
   \<not> unreadable turf_sample [[0, 0], [10, 10]]
       [[[10, 10], [12, 10], [12, 12], [10, 12], [10, 10]]] \<and>
   filter (\<lambda>f. \<not> notPolygon f) [squareA, pointFeature, noGeometry, squareB] = [squareA, squareB] \<and>
   riskScore turf_sample [[0, 0], [10, 10]]
       (Some \<lparr>features = Some [squareA, pointFeature, noGeometry, squareB]\<rparr>) = Inr 2 \<and>
   rejected turf_sample openRing \<and>
   isl (riskScore turf_sample [[0, 0], [10, 10]] (Some \<lparr>features = Some [squareA, openRing]\<rparr>)) \<and>
   None \<in> set [squareA, nullEntry] \<and>
   isl (riskScore turf_sample [[0, 0], [10, 10]] (Some \<lparr>features = Some [squareA, nullEntry]\<rparr>)) \<and>
   polygonsOf turf_sample (Some \<lparr>features = Some [squareA, emptyPolygon]\<rparr>)
     = [[[[0, 0], [2, 0], [2, 2], [0, 2], [0, 0]]], []] \<and>
   unreadable turf_sample [[0, 0], [10, 10]] [] \<and>
   isl (riskScore turf_sample [[0, 0], [10, 10]] (Some \<lparr>features = Some [squareA, emptyPolygon]\<rparr>))"
proof -
  let ?ls = "[[0, 0], [10, 10]] :: position list"
  let ?fs = "[squareA, pointFeature, noGeometry, squareB]"
  have nn: "None \<notin> set ?fs" by (simp add: sample_defs)
  have nr: "\<not> rejected turf_sample squareA" "\<not> rejected turf_sample pointFeature"
    "\<not> rejected turf_sample noGeometry" "\<not> rejected turf_sample squareB"
    by (simp_all add: rejected_def isPolygonFeature_def builtPolygon_def sample_defs)
  have po: "polygonsOf turf_sample (Some \<lparr>features = Some ?fs\<rparr>)
     = [[[[0, 0], [2, 0], [2, 2], [0, 2], [0, 0]]],
        [[[10, 10], [12, 10], [12, 12], [10, 12], [10, 10]]]]"
    by (simp add: polygonsOf_def featuresOf_def builtPolygon_def sample_defs)
  have rd: "\<not> unreadable turf_sample ?ls [[[0, 0], [2, 0], [2, 2], [0, 2], [0, 0]]]"
    "\<not> unreadable turf_sample ?ls [[[10, 10], [12, 10], [12, 12], [10, 12], [10, 10]]]"
    by (simp_all add: unreadable_def turf_sample_def sampleIntersects_def)
  have flt: "filter (\<lambda>f. \<not> notPolygon f) ?fs = [squareA, squareB]"
    by (simp add: notPolygon_def sample_defs)
  have cnt: "length (filter (intersects turf_sample ?ls)
                 (polygonsOf turf_sample (Some \<lparr>features = Some [squareA, squareB]\<rparr>))) = 2"
    by (simp add: polygonsOf_def featuresOf_def builtPolygon_def intersects_def sample_defs)
  have ok: "None \<notin> set ?fs \<and> (\<forall>f\<in>set ?fs. \<not> rejected turf_sample f) \<and>
     (\<forall>p\<in>set (polygonsOf turf_sample (Some \<lparr>features = Some ?fs\<rparr>)).
         \<not> unreadable turf_sample ?ls p)"
    unfolding po using nn nr rd by simp
  from riskScore_skips_entries_not_tagged_polygon
         [of turf_sample ?ls ?fs, THEN conjunct2, THEN conjunct2, THEN mp, OF ok]
  have one: "riskScore turf_sample ?ls (Some \<lparr>features = Some ?fs\<rparr>) = Inr 2"
    unfolding flt cnt .
  have rj: "rejected turf_sample openRing"
    by (simp add: rejected_def isPolygonFeature_def builtPolygon_def sample_defs)
  have nl: "None \<in> set [squareA, nullEntry]" by (simp add: nullEntry_def)
  have pe: "polygonsOf turf_sample (Some \<lparr>features = Some [squareA, emptyPolygon]\<rparr>)
     = [[[[0, 0], [2, 0], [2, 2], [0, 2], [0, 0]]], []]"
    by (simp add: polygonsOf_def featuresOf_def builtPolygon_def sample_defs)
  have ur: "unreadable turf_sample ?ls []"
    by (simp add: unreadable_def turf_sample_def sampleIntersects_def)
  from riskScore_skips_entries_not_tagged_polygon
         [of turf_sample ?ls "[squareA, openRing]", THEN conjunct2, THEN conjunct1] rj
  have two: "isl (riskScore turf_sample ?ls (Some \<lparr>features = Some [squareA, openRing]\<rparr>))"
    by auto
  from riskScore_skips_entries_not_tagged_polygon
         [of turf_sample ?ls "[squareA, nullEntry]", THEN conjunct2, THEN conjunct1] nl
  have three: "isl (riskScore turf_sample ?ls (Some \<lparr>features = Some [squareA, nullEntry]\<rparr>))"
    by auto
  from riskScore_skips_entries_not_tagged_polygon
         [of turf_sample ?ls "[squareA, emptyPolygon]", THEN conjunct2, THEN conjunct1] ur
  have four: "isl (riskScore turf_sample ?ls (Some \<lparr>features = Some [squareA, emptyPolygon]\<rparr>))"
    unfolding pe by auto
  from nn nr po rd flt one rj two nl three pe ur four show ?thesis by blast
qed

section \<open>No candidate routes\<close>

text \<open>
  C3. When the routing answer carries no routes (a missing or an empty \<open>routes\<close>), the
  \<open>try\<close> block ends with the error thrown by \<open>fetchRoutes\<close>, whatever the hotspot
  collection and the library; no selection is produced, and the handler reports the error.
\<close>

theorem no_candidates_fails:
  "routes js = None \<or> routes js = Some [] \<Longrightarrow>
   handleGetRoute_try T js hs = Inl (Error (failureMessage js)) \<and>
   (A \<noteq> None \<and> B \<noteq> None \<longrightarrow>
      handleGetRoute T A B js hs = ErrorStatus (Error (failureMessage js)))"
  by (auto simp: handleGetRoute_def handleGetRoute_try_def fetchRoutes_def)

theorem no_candidates_fails_witness:
  "(routes answerNone = None \<or> routes answerNone = Some []) \<and>
   handleGetRoute_try turf_sample answerNone hotspotsAB = Inl (Error ''Routing failed'') \<and>
   handleGetRoute turf_sample (Some (0, 0)) (Some (30, 20)) answerNone hotspotsAB
     = ErrorStatus (Error ''Routing failed'')"
proof -
  have h: "routes answerNone = None \<or> routes answerNone = Some []"
    by (simp add: answerNone_def)
  have m: "failureMessage answerNone = ''Routing failed''"
    by (simp add: failureMessage_def answerNone_def)
  from no_candidates_fails[OF h, of turf_sample hotspotsAB "Some (0, 0)" "Some (30, 20)"] h m
  show ?thesis by simp
qed

section \<open>Time mode\<close>

text \<open>
  C9. The effective mode is a function of the override and the hour read: an override of
  \<open>"day"\<close> or \<open>"night"\<close> is returned as it is, whatever the hour; with \<open>"auto"\<close> the
  mode is \<open>"night"\<close> exactly for the hours from 21 on and up to 4, and \<open>"day"\<close> otherwise.
\<close>

theorem effectiveMode_override_or_clock:
  "(override = ''day'' \<or> override = ''night'' \<longrightarrow> effectiveMode override h = override) \<and>
   effectiveMode ''auto'' h = (if h \<ge> 21 \<or> h \<le> 4 then ''night'' else ''day'')"
  by (simp add: effectiveMode_def nowIsNight_def)

theorem effectiveMode_override_or_clock_witness:
  "effectiveMode ''day'' 23 = ''day'' \<and> effectiveMode ''night'' 12 = ''night'' \<and>
   effectiveMode ''auto'' 21 = ''night'' \<and> effectiveMode ''auto'' 4 = ''night'' \<and>
   effectiveMode ''auto'' 5 = ''day'' \<and> effectiveMode ''auto'' 20 = ''day''"
  using effectiveMode_override_or_clock[of "''day''" 23]
        effectiveMode_override_or_clock[of "''night''" 12]
        effectiveMode_override_or_clock[of "''auto''" 21]
        effectiveMode_override_or_clock[of "''auto''" 4]
        effectiveMode_override_or_clock[of "''auto''" 5]
        effectiveMode_override_or_clock[of "''auto''" 20]
  by simp

section \<open>The placeholder route\<close>

text \<open>
  C10. \<open>calculateRoute\<close> of the second map component returns the empty list when origin
  or destination is unset and the two-point list of origin and destination otherwise;
  the time mode and the loaded hotspots do not enter the result.
\<close>

theorem calculateRoute_straight_line:
  "(origin st = None \<or> destination st = None \<longrightarrow> calculateRoute st = []) \<and>
   (origin st = Some a \<and> destination st = Some b \<longrightarrow> calculateRoute st = [a, b]) \<and>
   calculateRoute (st\<lparr>timeMode := t, dayHotspots := d, nightHotspots := n\<rparr>) = calculateRoute st"
  by (auto simp: calculateRoute_def split: option.splits)

theorem calculateRoute_straight_line_witness:
  "calculateRoute mapState0 = [] \<and>
   calculateRoute (mapState0\<lparr>origin := Some (33, -117)\<rparr>) = [(33, -117), (34, -118)] \<and>
   calculateRoute (mapState0\<lparr>origin := Some (33, -117), timeMode := ''night'', dayHotspots := [(33.5, -117.5)],
       nightHotspots := [(33.5, -117.5)]\<rparr>) = [(33, -117), (34, -118)]"
  using calculateRoute_straight_line
          [where st = mapState0 and a = "(33, -117)" and b = "(34, -118)" and t = "''night''"
             and d = "[(33.5, -117.5)]" and n = "[(33.5, -117.5)]"]
        calculateRoute_straight_line
          [where st = "mapState0\<lparr>origin := Some (33, -117)\<rparr>" and a = "(33, -117)"
             and b = "(34, -118)" and t = "''night''"
             and d = "[(33.5, -117.5)]" and n = "[(33.5, -117.5)]"]
  by (simp add: mapState0_def)

section \<open>The ranked array keeps every candidate\<close>

text \<open>
  C6. Sorting neither drops nor duplicates: the sorted array has the elements of the
  scored array with their multiplicities, and the same length. When the \<open>try\<close> block ends
  normally, the routes of the drawn array are the routes of the routing answer, each as
  often as it came, and there are as many of them.
\<close>

theorem ranked_is_permutation_of_candidates:
  "mset (Array_sort compareScored scored0) = mset scored0 \<and>
   length (Array_sort compareScored scored0) = length scored0 \<and>
   (handleGetRoute_try T js hs = Inr sel \<longrightarrow>
      (\<exists>rs. routes js = Some rs \<and>
            mset (map route (allScored sel)) = mset rs \<and>
            length (allScored sel) = length rs))"
proof (intro conjI impI)
  show "mset (Array_sort compareScored scored0) = mset scored0"
    by (rule mset_Array_sort)
  show "length (Array_sort compareScored scored0) = length scored0"
    by (rule length_Array_sort)
next
  assume "handleGetRoute_try T js hs = Inr sel"
  then obtain rs scored rest where
    a: "fetchRoutes js = Inr rs" "Array_map (scoreRoute T hs) rs = Inr scored"
       "Array_sort compareScored scored = best sel # rest" "allScored sel = best sel # rest"
    by (rule handleGetRoute_try_Inr)
  from a(3,4) have s: "allScored sel = Array_sort compareScored scored" by simp
  have "mset (map route (allScored sel)) = image_mset route (mset (Array_sort compareScored scored))"
    unfolding s by simp
  also have "\<dots> = mset (map route scored)"
    by (simp add: mset_Array_sort)
  also have "\<dots> = mset rs"
    using scored_routes[OF a(2)] by simp
  finally have m: "mset (map route (allScored sel)) = mset rs" .
  then have "length (allScored sel) = length rs"
    by (metis length_map size_mset)
  with m fetchRoutes_Inr[OF a(1)]
  show "\<exists>rs. routes js = Some rs \<and>
            mset (map route (allScored sel)) = mset rs \<and>
            length (allScored sel) = length rs"
    by simp
qed

theorem ranked_is_permutation_of_candidates_witness:
  "handleGetRoute_try turf_sample answer123 hotspotsAB = Inr selection123 \<and>
   routes answer123 = Some [route1, route2, route3] \<and>
   map route (allScored selection123) = [route3, route2, route1] \<and>
   mset (map route (allScored selection123)) = mset [route1, route2, route3] \<and>
   length (allScored selection123) = 3"
proof -
  have h: "handleGetRoute_try turf_sample answer123 hotspotsAB = Inr selection123"
    by (rule sample123)
  have r: "routes answer123 = Some [route1, route2, route3]"
    by (simp add: answer123_def)
  have o: "map route (allScored selection123) = [route3, route2, route1]"
    by (simp add: selection123_def scored1_def scored2_def scored3_def)
  from ranked_is_permutation_of_candidates
         [of "[]" turf_sample answer123 hotspotsAB selection123] h r
  have "mset (map route (allScored selection123)) = mset [route1, route2, route3] \<and>
        length (allScored selection123) = length [route1, route2, route3]"
    by simp
  with h r o show ?thesis by simp
qed

section \<open>Stability\<close>

text \<open>
  C7. The ranking is stable: for any risk and distance, the scored routes that have that
  risk and that distance stand in the sorted array in the order they had before sorting,
  which is the order of the routes in the routing answer.
\<close>

theorem ranking_is_stable:
  "filter (\<lambda>s. risk s = r \<and> distance s = d) (Array_sort compareScored scored0)
     = filter (\<lambda>s. risk s = r \<and> distance s = d) scored0 \<and>
   (handleGetRoute_try T js hs = Inr sel \<longrightarrow>
      (\<exists>rs scored.
         routes js = Some rs \<and> Array_map (scoreRoute T hs) rs = Inr scored \<and>
         map route scored = rs \<and>
         filter (\<lambda>s. risk s = r \<and> distance s = d) (allScored sel)
           = filter (\<lambda>s. risk s = r \<and> distance s = d) scored))"
proof (intro conjI impI)
  show "filter (\<lambda>s. risk s = r \<and> distance s = d) (Array_sort compareScored scored0)
     = filter (\<lambda>s. risk s = r \<and> distance s = d) scored0"
    by (rule stable_Array_sort)
next
  assume "handleGetRoute_try T js hs = Inr sel"
  then obtain rs scored rest where
    a: "fetchRoutes js = Inr rs" "Array_map (scoreRoute T hs) rs = Inr scored"
       "Array_sort compareScored scored = best sel # rest" "allScored sel = best sel # rest"
    by (rule handleGetRoute_try_Inr)
  from a(3,4) have s: "allScored sel = Array_sort compareScored scored" by simp
  have "filter (\<lambda>s. risk s = r \<and> distance s = d) (allScored sel)
           = filter (\<lambda>s. risk s = r \<and> distance s = d) scored"
    unfolding s by (rule stable_Array_sort)
  with a(2) scored_routes[OF a(2)] fetchRoutes_Inr[OF a(1)]
  show "\<exists>rs scored.
         routes js = Some rs \<and> Array_map (scoreRoute T hs) rs = Inr scored \<and>
         map route scored = rs \<and>
         filter (\<lambda>s. risk s = r \<and> distance s = d) (allScored sel)
           = filter (\<lambda>s. risk s = r \<and> distance s = d) scored"
    by simp
qed

theorem ranking_is_stable_witness:
  "handleGetRoute_try turf_sample answerTwins hotspotsAB = Inr selectionTwins \<and>
   handleGetRoute_try turf_sample answerTwinsRev hotspotsAB = Inr selectionTwinsRev \<and>
   Array_map (scoreRoute turf_sample hotspotsAB) [route1, route2, route2b]
     = Inr [scored1, scored2, scored2b] \<and>
   Array_map (scoreRoute turf_sample hotspotsAB) [route1, route2b, route2]
     = Inr [scored1, scored2b, scored2] \<and>
   filter (\<lambda>s. risk s = 0 \<and> distance s = 4000) (allScored selectionTwins)
     = filter (\<lambda>s. risk s = 0 \<and> distance s = 4000) [scored1, scored2, scored2b] \<and>
   filter (\<lambda>s. risk s = 0 \<and> distance s = 4000) (allScored selectionTwinsRev)
     = filter (\<lambda>s. risk s = 0 \<and> distance s = 4000) [scored1, scored2b, scored2] \<and>
   filter (\<lambda>s. risk s = 0 \<and> distance s = 4000) (allScored selectionTwins) = [scored2, scored2b] \<and>
   filter (\<lambda>s. risk s = 0 \<and> distance s = 4000) (allScored selectionTwinsRev) = [scored2b, scored2]"
proof -
  have h1: "handleGetRoute_try turf_sample answerTwins hotspotsAB = Inr selectionTwins"
    by (simp add: sample_defs code_defs expected_defs twin_defs)
  have h2: "handleGetRoute_try turf_sample answerTwinsRev hotspotsAB = Inr selectionTwinsRev"
    by (simp add: sample_defs code_defs expected_defs twin_defs)
  have r1: "routes answerTwins = Some [route1, route2, route2b]"
    and r2: "routes answerTwinsRev = Some [route1, route2b, route2]"
    by (simp_all add: twin_defs)
  have m1: "Array_map (scoreRoute turf_sample hotspotsAB) [route1, route2, route2b]
              = Inr [scored1, scored2, scored2b]"
    by (simp add: sample_defs code_defs expected_defs twin_defs)
  have m2: "Array_map (scoreRoute turf_sample hotspotsAB) [route1, route2b, route2]
              = Inr [scored1, scored2b, scored2]"
    by (simp add: sample_defs code_defs expected_defs twin_defs)
  from ranking_is_stable
         [where r = 0 and d = 4000 and T = turf_sample and js = answerTwins
            and hs = hotspotsAB and sel = selectionTwins, THEN conjunct2, THEN mp, OF h1]
       r1 m1
  have s1: "filter (\<lambda>s. risk s = 0 \<and> distance s = 4000) (allScored selectionTwins)
     = filter (\<lambda>s. risk s = 0 \<and> distance s = 4000) [scored1, scored2, scored2b]"
    by auto
  from ranking_is_stable
         [where r = 0 and d = 4000 and T = turf_sample and js = answerTwinsRev
            and hs = hotspotsAB and sel = selectionTwinsRev, THEN conjunct2, THEN mp, OF h2]
       r2 m2
  have s2: "filter (\<lambda>s. risk s = 0 \<and> distance s = 4000) (allScored selectionTwinsRev)
     = filter (\<lambda>s. risk s = 0 \<and> distance s = 4000) [scored1, scored2b, scored2]"
    by auto
  have v1: "filter (\<lambda>s. risk s = 0 \<and> distance s = 4000) (allScored selectionTwins)
              = [scored2, scored2b]"
    by (simp add: expected_defs twin_defs)
  have v2: "filter (\<lambda>s. risk s = 0 \<and> distance s = 4000) (allScored selectionTwinsRev)
              = [scored2b, scored2]"
    by (simp add: expected_defs twin_defs)
  from h1 h2 m1 m2 s1 s2 v1 v2 show ?thesis by blast
qed

section \<open>No hotspot data\<close>

text \<open>
  C4. When the hotspot collection is absent, has no \<open>features\<close> or has none in it, every
  line scores 0; and for a non-empty routing answer whose routes the line constructor
  accepts, the handler selects a winner, every scored route has risk 0, and the winner is
  one of the candidates and no candidate is longer than it.
\<close>

theorem no_hotspots_longest_route_wins:
  assumes "featuresOf hs = []"
  shows "riskScore T ls hs = Inr 0 \<and>
         (fetchRoutes js = Inr rs \<and> (\<forall>r\<in>set rs. \<exists>l. lineString T (r_coordinates r) = Inr l) \<longrightarrow>
            (\<exists>sel. handleGetRoute_try T js hs = Inr sel \<and>
                   (\<forall>s\<in>set (allScored sel). risk s = 0) \<and>
                   route (best sel) \<in> set rs \<and>
                   distance (best sel) = r_distance (route (best sel)) \<and>
                   (\<forall>r\<in>set rs. r_distance r \<le> distance (best sel))))"
proof (intro conjI impI)
  show "riskScore T ls hs = Inr 0"
    using assms by (rule riskScore_no_features)
next
  assume "fetchRoutes js = Inr rs \<and> (\<forall>r\<in>set rs. \<exists>l. lineString T (r_coordinates r) = Inr l)"
  then have f: "fetchRoutes js = Inr rs"
    and l: "\<forall>r\<in>set rs. \<exists>l. lineString T (r_coordinates r) = Inr l" by simp_all
  from f have ne: "rs \<noteq> []" by (simp add: fetchRoutes_Inr)
  have "\<forall>r\<in>set rs. \<exists>s. scoreRoute T hs r = Inr s"
    using l riskScore_no_features[OF assms] scoreRoute_returns by metis
  then obtain scored where m: "Array_map (scoreRoute T hs) rs = Inr scored"
    using Array_map_returns by blast
  have rts: "map route scored = rs" using m by (rule scored_routes)
  have each: "\<forall>s\<in>set scored. risk s = 0 \<and> distance s = r_distance (route s)"
  proof
    fix s assume "s \<in> set scored"
    with Array_map_scored[OF m] have "scoreRoute T hs (route s) = Inr s" by simp
    from scoreRoute_Inr[OF this] riskScore_no_features[OF assms, of T "line s"]
    show "risk s = 0 \<and> distance s = r_distance (route s)" by simp
  qed
  from ne rts have "Array_sort compareScored scored \<noteq> []"
    using length_Array_sort[of scored] by auto
  then obtain b rest where br: "Array_sort compareScored scored = b # rest"
    by (cases "Array_sort compareScored scored") auto
  let ?sel = "\<lparr>best = b, allScored = b # rest,
               status = (if risk b = 0 then AvoidsAll
                         else Safest (risk b) (Math_max (map risk (b # rest))))\<rparr>"
  have run: "handleGetRoute_try T js hs = Inr ?sel"
    by (simp add: handleGetRoute_try_def f m br)
  have mem: "set (b # rest) = set scored"
    using set_Array_sort[of scored] br by simp
  then have bmem: "b \<in> set scored" by auto
  from mem each have zero: "\<forall>s\<in>set (b # rest). risk s = 0" by metis
  from bmem each have bd: "distance b = r_distance (route b)" by simp
  from bmem rts have bin: "route b \<in> set rs" by auto
  have srt: "\<forall>s\<in>set rest. ranksBefore b s"
    using sorted_Array_sort[of scored] br by simp
  have top: "\<forall>r\<in>set rs. r_distance r \<le> distance b"
  proof
    fix r assume "r \<in> set rs"
    with rts obtain s where s: "s \<in> set scored" "route s = r" by auto
    with each have d: "distance s = r_distance r" by simp
    from s mem consider "s = b" | "s \<in> set rest" by auto
    then show "r_distance r \<le> distance b"
    proof cases
      case 1
      with d show ?thesis by simp
    next
      case 2
      with srt have "ranksBefore b s" by simp
      moreover have "risk b = 0" using zero by simp
      moreover have "risk s = 0" using each s by simp
      ultimately show ?thesis using d by (simp add: ranksBefore_def)
    qed
  qed
  from run zero bin bd top
  show "\<exists>sel. handleGetRoute_try T js hs = Inr sel \<and>
                   (\<forall>s\<in>set (allScored sel). risk s = 0) \<and>
                   route (best sel) \<in> set rs \<and>
                   distance (best sel) = r_distance (route (best sel)) \<and>
                   (\<forall>r\<in>set rs. r_distance r \<le> distance (best sel))"
    by (intro exI[of _ ?sel]) simp
qed

theorem no_hotspots_longest_route_wins_witness:
  "featuresOf None = [] \<and> featuresOf (Some \<lparr>features = Some []\<rparr>) = [] \<and>
   fetchRoutes answer123 = Inr [route1, route2, route3] \<and>
   lineString turf_sample (r_coordinates route1) = Inr [[0, 0], [10, 10]] \<and>
   lineString turf_sample (r_coordinates route2) = Inr [[20, 20], [30, 20]] \<and>
   lineString turf_sample (r_coordinates route3) = Inr [[20, 20], [25, 30], [30, 20]] \<and>
   riskScore turf_sample [[0, 0], [10, 10]] (Some \<lparr>features = Some []\<rparr>) = Inr 0 \<and>
   handleGetRoute_try turf_sample answer123 None = Inr selectionNoHotspots \<and>
   route (best selectionNoHotspots) = route1 \<and> distance (best selectionNoHotspots) = 5000"
proof -
  have h1: "featuresOf None = []" and h2: "featuresOf (Some \<lparr>features = Some []\<rparr>) = []"
    by (simp_all add: featuresOf_def)
  have f: "fetchRoutes answer123 = Inr [route1, route2, route3]"
    by (simp add: fetchRoutes_def answer123_def)
  have ls: "lineString turf_sample (r_coordinates route1) = Inr [[0, 0], [10, 10]]"
    "lineString turf_sample (r_coordinates route2) = Inr [[20, 20], [30, 20]]"
    "lineString turf_sample (r_coordinates route3) = Inr [[20, 20], [25, 30], [30, 20]]"
    by (simp_all add: sample_defs)
  then have l: "\<forall>r\<in>set [route1, route2, route3].
                  \<exists>l. lineString turf_sample (r_coordinates r) = Inr l"
    by simp
  have run: "handleGetRoute_try turf_sample answer123 None = Inr selectionNoHotspots"
    by (simp add: sample_defs code_defs expected_defs selectionNoHotspots_def scored1_clear_def)
  from no_hotspots_longest_route_wins[OF h2, of turf_sample "[[0, 0], [10, 10]]" answer123 "[route1, route2, route3]"]
  have a: "riskScore turf_sample [[0, 0], [10, 10]] (Some \<lparr>features = Some []\<rparr>) = Inr 0"
    by simp
  from no_hotspots_longest_route_wins[OF h1, of turf_sample "[[0, 0], [10, 10]]" answer123 "[route1, route2, route3]"] f l run
  have b: "\<forall>r\<in>set [route1, route2, route3]. r_distance r \<le> distance (best selectionNoHotspots)"
    by simp
  have c: "route (best selectionNoHotspots) = route1 \<and> distance (best selectionNoHotspots) = 5000"
    by (simp add: selectionNoHotspots_def scored1_clear_def scored1_def)
  from h1 h2 f ls a run c show ?thesis by blast
qed

section \<open>The reported maximum\<close>

text \<open>
  C8, as stated, fails: when the winner's risk is 0 the status line is the fixed
  sentence about avoiding all hotspots and reports no maximum, although another scored
  route of the same run has risk 2.
\<close>

theorem maxRisk_not_reported_counterexample:
  "handleGetRoute_try turf_sample answer123 hotspotsAB = Inr selection123 \<and>
   map risk (allScored selection123) = [0, 0, 2] \<and>
   status selection123 = AvoidsAll \<and>
   maxRiskObserved (status selection123) = None \<and>
   maxRiskObserved (status selection123) \<noteq> Some (Max (set (map risk (allScored selection123)))) \<and>
   handleGetRoute turf_sample (Some (0, 0)) (Some (30, 20)) answer123 hotspotsAB = AvoidsAll"
  by (simp add: handleGetRoute_def sample123 maxRiskObserved_def expected_defs)

text \<open>
  C8, amended. When the winner's risk is not 0, the status line reports the maximum of
  the risks of all scored routes; when it is 0, the status line reports no maximum.
\<close>

theorem maxRisk_reported_when_winner_risky:
  assumes "handleGetRoute_try T js hs = Inr sel"
  shows "(risk (best sel) \<noteq> 0 \<longrightarrow>
            status sel = Safest (risk (best sel)) (Some (Max (set (map risk (allScored sel))))) \<and>
            maxRiskObserved (status sel) = Some (Max (set (map risk (allScored sel))))) \<and>
         (risk (best sel) = 0 \<longrightarrow> status sel = AvoidsAll \<and> maxRiskObserved (status sel) = None)"
proof -
  from assms obtain rest where
    a: "allScored sel = best sel # rest"
       "status sel = (if risk (best sel) = 0 then AvoidsAll
                      else Safest (risk (best sel)) (Math_max (map risk (allScored sel))))"
    by (rule handleGetRoute_try_Inr)
  from a(1) have "map risk (allScored sel) \<noteq> []" by simp
  then have "Math_max (map risk (allScored sel)) = Some (Max (set (map risk (allScored sel))))"
    by (rule Math_max_Max)
  with a(2) show ?thesis by (simp add: maxRiskObserved_def)
qed

theorem maxRisk_reported_when_winner_risky_witness:
  "handleGetRoute_try turf_sample answer14 hotspotsAB = Inr selection14 \<and>
   risk (best selection14) = 1 \<and>
   map risk (allScored selection14) = [1, 2] \<and>
   status selection14 = Safest 1 (Some (Max (set (map risk (allScored selection14))))) \<and>
   maxRiskObserved (status selection14) = Some 2"
proof -
  have h: "handleGetRoute_try turf_sample answer14 hotspotsAB = Inr selection14"
    by (simp add: sample_defs code_defs selection14_def scored4_def scored1_def numeral_2_eq_2)
  have r: "risk (best selection14) = 1" "map risk (allScored selection14) = [1, 2]"
    by (simp_all add: selection14_def scored4_def scored1_def)
  from maxRisk_reported_when_winner_risky[OF h] r
  have "status selection14 = Safest 1 (Some (Max (set (map risk (allScored selection14)))))"
    by simp
  moreover have "maxRiskObserved (status selection14) = Some 2"
    by (simp add: selection14_def maxRiskObserved_def)
  ultimately show ?thesis using h r by simp
qed

end
